theory Spec2Isabelle
  imports Main
begin

section \<open>The RCI node model of \<^verbatim>\<open>rci/model/base.py\<close>\<close>

text \<open>
  The module is Python 2. Its values are modelled as follows.
  \<^item> A Python exception is a value of \<open>py_error\<close>; a computation that may raise
    returns \<open>py_error + 'a\<close> with \<open>Inl\<close> the exception.
  \<^item> The accessor of a simple leaf and the callback of a target are supplied by the
    embedding application and read or write live device state. They are functions on
    an abstract state \<open>'s\<close>: a call takes the state and returns its result (or the
    exception it raised) with the new state. Everything that may call them is written
    in the state-and-exception monad \<open>('a, 's) M\<close>.
  \<^item> A \<open>dict\<close> from strings to strings is the list of its items in the order in
    which the interpreter iterates over it.
\<close>

datatype py_error = TypeError | ValueError | AttributeError | AssertionError | OtherError string

type_synonym ('a, 's) M = "'s \<Rightarrow> (py_error + 'a) \<times> 's"

definition returnM :: "'a \<Rightarrow> ('a, 's) M" where
  "returnM a = (\<lambda>s. (Inr a, s))"

definition raiseM :: "py_error \<Rightarrow> ('a, 's) M" where
  "raiseM e = (\<lambda>s. (Inl e, s))"

definition bindM :: "('a, 's) M \<Rightarrow> ('a \<Rightarrow> ('b, 's) M) \<Rightarrow> ('b, 's) M" where
  "bindM m f = (\<lambda>s. case m s of (Inl e, s') \<Rightarrow> (Inl e, s') | (Inr a, s') \<Rightarrow> f a s')"

type_synonym dict = "(string \<times> string) list"

subsection \<open>The parsed request: an ElementTree element\<close>

text \<open>
  \<open>etext\<close> is \<^verbatim>\<open>Element.text\<close> (the characters before the first child) and \<open>etail\<close>
  is \<^verbatim>\<open>Element.tail\<close> (the characters after the element's end tag); both are
  \<^verbatim>\<open>None\<close> when there are no such characters. \<open>attrib\<close> is the attribute dictionary and
  \<open>getchildren\<close> the ordered child elements.
\<close>

datatype xml = Element (tag: string) (attrib: dict) (etext: "string option")
  (etail: "string option") (getchildren: "xml list")

subsection \<open>Attributes of a node\<close>

datatype RCIAttributeValue = RCIAttributeValue (av_name: string) (av_desc: string)
  (av_target_node: "string option")

datatype RCIAttribute = RCIAttribute (ra_name: string) (ra_desc: string)
  (ra_values: "RCIAttributeValue list option")

subsection \<open>Nodes\<close>

text \<open>
  What an accessor returns: a \<^verbatim>\<open>str\<close>, \<^verbatim>\<open>None\<close>, or a pair of a body and an
  attribute dictionary, each of which may be \<^verbatim>\<open>None\<close>.
\<close>

datatype acc_value = AStr string | ANone | APair "string option" "dict option"

record leaf_fields =
  lf_name :: string
  lf_attrs :: "RCIAttribute list"
  lf_desc :: "string option"
  lf_dtype :: string
  lf_dmin :: "string option"
  lf_dmax :: "string option"
  lf_default :: "string option"
  lf_dformat :: "string option"
  lf_access :: "string option"
  lf_units :: "string option"
  lf_errors :: dict

record branch_fields =
  bf_name :: string
  bf_desc :: string
  bf_attrs :: "RCIAttribute list"
  bf_access :: "string option"
  bf_dscr_avail :: "string option"
  bf_dformat :: "string option"
  bf_errors :: dict

text \<open>
  The four classes. A simple leaf carries its optional accessor and setter, a branch
  its ordered children, a target its children and its optional callback.
\<close>

datatype 's Node =
    LeafNode leaf_fields
  | SimpleLeafNode leaf_fields "(acc_value, 's) M option"
      "(string option \<Rightarrow> dict option \<Rightarrow> (unit, 's) M) option"
  | BranchNode branch_fields "'s Node list"
  | TargetNode branch_fields "'s Node list" "(string \<Rightarrow> (string, 's) M) option"

fun node_name :: "'s Node \<Rightarrow> string" where
  "node_name (LeafNode lf) = lf_name lf"
| "node_name (SimpleLeafNode lf acc st) = lf_name lf"
| "node_name (BranchNode bf cs) = bf_name bf"
| "node_name (TargetNode bf cs cb) = bf_name bf"

fun node_attrs :: "'s Node \<Rightarrow> RCIAttribute list" where
  "node_attrs (LeafNode lf) = lf_attrs lf"
| "node_attrs (SimpleLeafNode lf acc st) = lf_attrs lf"
| "node_attrs (BranchNode bf cs) = bf_attrs bf"
| "node_attrs (TargetNode bf cs cb) = bf_attrs bf"

text \<open>
  \<^verbatim>\<open>for child in device_node\<close>: only \<^verbatim>\<open>BranchNode\<close> defines \<^verbatim>\<open>__iter__\<close> (over a copy of
  its children); iterating over a leaf raises \<^verbatim>\<open>TypeError\<close>.
\<close>

fun iter :: "'s Node \<Rightarrow> py_error + 's Node list" where
  "iter (LeafNode lf) = Inl TypeError"
| "iter (SimpleLeafNode lf acc st) = Inl TypeError"
| "iter (BranchNode bf cs) = Inr cs"
| "iter (TargetNode bf cs cb) = Inr cs"

subsection \<open>\<^verbatim>\<open>Node._xml_tag\<close>\<close>

text \<open>\<^verbatim>\<open>sep.join(xs)\<close>.\<close>

fun join :: "string \<Rightarrow> string list \<Rightarrow> string" where
  "join sep [] = []"
| "join sep [x] = x"
| "join sep (x # y # ys) = x @ sep @ join sep (y # ys)"

text \<open>A value between double quotes, and \<^verbatim>\<open>'%s="%s"' % (key, value)\<close>.\<close>

definition quoted :: "string \<Rightarrow> string" where
  "quoted v = [CHR 0x22] @ v @ [CHR 0x22]"

definition key_value :: "string \<times> string \<Rightarrow> string" where
  "key_value kv = fst kv @ ''='' @ quoted (snd kv)"

definition xml_tag :: "string \<Rightarrow> string option \<Rightarrow> dict option \<Rightarrow> string" where
  "xml_tag name body attributes =
     (let attrs = (case attributes of None \<Rightarrow> ''''
                   | Some d \<Rightarrow> '' '' @ join '' '' (map key_value d))
      in case body of
           None \<Rightarrow> ''<'' @ name @ attrs @ '' />''
         | Some b \<Rightarrow>
             if length b > 0 then ''<'' @ name @ attrs @ ''>'' @ b @ ''</'' @ name @ ''>''
             else ''<'' @ name @ attrs @ '' />'')"

subsection \<open>\<^verbatim>\<open>toxml\<close>\<close>

text \<open>
  \<^verbatim>\<open>body, attributes = self.accessor()\<close> on the value of the second call: a pair
  unpacks; \<^verbatim>\<open>None\<close> is not iterable (\<^verbatim>\<open>TypeError\<close>); a \<^verbatim>\<open>str\<close> unpacks only when it
  has two characters, and then \<^verbatim>\<open>_xml_tag\<close> fails on \<^verbatim>\<open>attributes.iteritems()\<close>
  (\<^verbatim>\<open>AttributeError\<close>), otherwise the unpacking raises \<^verbatim>\<open>ValueError\<close>.
\<close>

fun unpack_and_tag :: "string \<Rightarrow> acc_value \<Rightarrow> py_error + string" where
  "unpack_and_tag name (APair body attributes) = Inr (xml_tag name body attributes)"
| "unpack_and_tag name ANone = Inl TypeError"
| "unpack_and_tag name (AStr v) = (if length v = 2 then Inl AttributeError else Inl ValueError)"

definition liftE :: "py_error + 'a \<Rightarrow> ('a, 's) M" where
  "liftE r = (case r of Inl e \<Rightarrow> raiseM e | Inr a \<Rightarrow> returnM a)"

text \<open>
  \<^verbatim>\<open>LeafNode.toxml\<close> (called with no arguments), \<^verbatim>\<open>SimpleLeafNode.toxml\<close> and
  \<^verbatim>\<open>BranchNode.toxml\<close>, which \<^verbatim>\<open>TargetNode\<close> inherits. \<open>toxml_children\<close> is
  \<^verbatim>\<open>''.join(child.toxml() for child in self.children)\<close>.
\<close>

fun toxml :: "'s Node \<Rightarrow> (string, 's) M"
  and toxml_children :: "'s Node list \<Rightarrow> (string, 's) M" where
  "toxml (LeafNode lf) = returnM (xml_tag (lf_name lf) None None)"
| "toxml (SimpleLeafNode lf accessor setter) =
     (case accessor of
        Some acc \<Rightarrow>
          bindM acc (\<lambda>v.
            case v of
              AStr b \<Rightarrow> returnM (xml_tag (lf_name lf) (Some b) None)
            | _ \<Rightarrow> bindM acc (\<lambda>v2. liftE (unpack_and_tag (lf_name lf) v2)))
      | None \<Rightarrow> returnM (xml_tag (lf_name lf) None None))"
| "toxml (BranchNode bf cs) =
     bindM (toxml_children cs) (\<lambda>body. returnM (xml_tag (bf_name bf) (Some body) None))"
| "toxml (TargetNode bf cs cb) =
     bindM (toxml_children cs) (\<lambda>body. returnM (xml_tag (bf_name bf) (Some body) None))"
| "toxml_children [] = returnM ''''"
| "toxml_children (c # cs) =
     bindM (toxml c) (\<lambda>x. bindM (toxml_children cs) (\<lambda>y. returnM (x @ y)))"

subsection \<open>The attribute matcher: \<^verbatim>\<open>_tree_match\<close> and \<^verbatim>\<open>_tree_match_helper\<close>\<close>

text \<open>
  The two nested loops that fill \<^verbatim>\<open>device_node_attrib_set\<close>. The inner loop iterates
  over \<^verbatim>\<open>attribute.values\<close>, which raises \<^verbatim>\<open>TypeError\<close> when the attribute was built
  without values (\<^verbatim>\<open>values=None\<close>, the constructor's default).
\<close>

fun add_values :: "string \<Rightarrow> RCIAttributeValue list \<Rightarrow> (string \<times> string) set
    \<Rightarrow> (string \<times> string) set" where
  "add_values n [] S = S"
| "add_values n (v # vs) S = add_values n vs (insert (n, av_name v) S)"

fun attrib_loop :: "RCIAttribute list \<Rightarrow> (string \<times> string) set
    \<Rightarrow> py_error + (string \<times> string) set" where
  "attrib_loop [] S = Inr S"
| "attrib_loop (a # as) S =
     (case ra_values a of
        None \<Rightarrow> Inl TypeError
      | Some vs \<Rightarrow> attrib_loop as (add_values (ra_name a) vs S))"

text \<open>
  \<open>tree_match_helper\<close> returns \<open>Inr (Some node)\<close> for a match, \<open>Inr None\<close> for
  Python's \<^verbatim>\<open>None\<close> and \<open>Inl\<close> for an exception. \<open>helper_loop\<close> is its inner
  \<^verbatim>\<open>for child in device_node\<close> loop, which returns the first result that is not
  \<^verbatim>\<open>None\<close>.
\<close>

function tree_match_helper :: "xml \<Rightarrow> 's Node \<Rightarrow> py_error + 's Node option"
  and helper_loop :: "xml \<Rightarrow> 's Node list \<Rightarrow> py_error + 's Node option" where
  "tree_match_helper xml_node device_node =
     (case attrib_loop (node_attrs device_node) {} of
        Inl e \<Rightarrow> Inl e
      | Inr device_node_attrib_set \<Rightarrow>
          if set (attrib xml_node) \<subseteq> device_node_attrib_set
             \<and> node_name device_node = tag xml_node
          then
            (case getchildren xml_node of
               [] \<Rightarrow> Inr (Some device_node)
             | [xc] \<Rightarrow>
                 (case iter device_node of
                    Inl e \<Rightarrow> Inl e
                  | Inr cs \<Rightarrow> helper_loop xc cs)
             | _ \<Rightarrow> Inl AssertionError)
          else Inr None)"
| "helper_loop xc [] = Inr None"
| "helper_loop xc (child # cs) =
     (case tree_match_helper xc child of
        Inl e \<Rightarrow> Inl e
      | Inr (Some res) \<Rightarrow> Inr (Some res)
      | Inr None \<Rightarrow> helper_loop xc cs)"
  by pat_completeness auto
termination
proof (relation "measure (\<lambda>v. case v of Inl (x, d) \<Rightarrow> size d
                                    | Inr (x, cs) \<Rightarrow> size_list size cs)")
  show "wf (measure (\<lambda>v. case v of Inl (x, d) \<Rightarrow> size d
                                | Inr (x, cs) \<Rightarrow> size_list size cs))"
    by simp
next
  fix xml_node :: xml and device_node :: "'s Node" and cs :: "'s Node list" and xc :: xml
  assume "iter device_node = Inr cs"
  then have "size_list size cs < size device_node"
    by (cases device_node) auto
  then show "(Inr (xc, cs), Inl (xml_node, device_node))
      \<in> measure (\<lambda>v. case v of Inl (x, d) \<Rightarrow> size d | Inr (x, cs) \<Rightarrow> size_list size cs)"
    by simp
qed auto

text \<open>\<^verbatim>\<open>_tree_match(xml_node, device_node)\<close>: the loop over the children of the branch.\<close>

definition tree_match :: "xml \<Rightarrow> 's Node \<Rightarrow> py_error + 's Node option" where
  "tree_match xml_node device_node =
     (case iter device_node of
        Inl e \<Rightarrow> Inl e
      | Inr cs \<Rightarrow> helper_loop xml_node cs)"

declare tree_match_helper.simps [simp del]

subsection \<open>\<^verbatim>\<open>BranchNode.get\<close>\<close>

text \<open>The first child whose name is \<open>name\<close>, over the children of the branch.\<close>

fun get :: "'s Node list \<Rightarrow> string \<Rightarrow> 's Node option" where
  "get [] name = None"
| "get (child # cs) name = (if node_name child = name then Some child else get cs name)"

subsection \<open>\<^verbatim>\<open>handle_xml\<close>\<close>

text \<open>
  The loop of \<^verbatim>\<open>BranchNode.handle_xml\<close> over the children of the request, with its
  accumulator \<^verbatim>\<open>output\<close>. A node object is always true, so \<^verbatim>\<open>if match_node\<close> tests
  for \<^verbatim>\<open>None\<close>.
\<close>

fun branch_loop :: "'s Node \<Rightarrow> xml list \<Rightarrow> string \<Rightarrow> (string, 's) M" where
  "branch_loop self [] output = returnM output"
| "branch_loop self (child # xs) output =
     (case tree_match child self of
        Inl e \<Rightarrow> raiseM e
      | Inr (Some match_node) \<Rightarrow>
          bindM (toxml match_node) (\<lambda>r. branch_loop self xs (output @ r))
      | Inr None \<Rightarrow> branch_loop self xs (output @ ''''))"

text \<open>
  The payload of the callback. \<^verbatim>\<open>xml_payload\<close> starts as \<^verbatim>\<open>xml_tree.text\<close>, which is a
  string or \<^verbatim>\<open>None\<close>; \<^verbatim>\<open>+=\<close> on a \<^verbatim>\<open>None\<close> operand raises \<^verbatim>\<open>TypeError\<close>.
  \<^verbatim>\<open>ET.tostring\<close> belongs to the XML library and is the parameter \<open>tostring\<close>.
\<close>

fun add_str :: "string option \<Rightarrow> string option \<Rightarrow> py_error + string" where
  "add_str (Some a) (Some b) = Inr (a @ b)"
| "add_str a b = Inl TypeError"

fun payload_loop :: "(xml \<Rightarrow> string) \<Rightarrow> xml list \<Rightarrow> string option \<Rightarrow> py_error + string option" where
  "payload_loop tostring [] xml_payload = Inr xml_payload"
| "payload_loop tostring (parameter # xs) xml_payload =
     (case add_str xml_payload (Some (tostring parameter)) of
        Inl e \<Rightarrow> Inl e
      | Inr p \<Rightarrow> payload_loop tostring xs (Some p))"

definition build_payload :: "(xml \<Rightarrow> string) \<Rightarrow> xml \<Rightarrow> py_error + string" where
  "build_payload tostring xml_tree =
     (case payload_loop tostring (getchildren xml_tree) (etext xml_tree) of
        Inl e \<Rightarrow> Inl e
      | Inr p \<Rightarrow> add_str p (etail xml_tree))"

text \<open>
  \<^verbatim>\<open>Node.handle_xml\<close> (the leaves), \<^verbatim>\<open>BranchNode.handle_xml\<close> and
  \<^verbatim>\<open>TargetNode.handle_xml\<close>; \<open>target_loop\<close> is the loop of the latter over the
  children of the request, with its accumulator \<^verbatim>\<open>ret\<close>.
\<close>

function handle_xml :: "(xml \<Rightarrow> string) \<Rightarrow> 's Node \<Rightarrow> xml \<Rightarrow> (string, 's) M"
  and target_loop :: "(xml \<Rightarrow> string) \<Rightarrow> 's Node list \<Rightarrow> xml list \<Rightarrow> string \<Rightarrow> (string, 's) M"
  where
  "handle_xml tostring (LeafNode lf) xml_tree = toxml (LeafNode lf)"
| "handle_xml tostring (SimpleLeafNode lf accessor setter) xml_tree =
     toxml (SimpleLeafNode lf accessor setter)"
| "handle_xml tostring (BranchNode bf cs) xml_tree =
     (if length (getchildren xml_tree) = 0 then toxml (BranchNode bf cs)
      else bindM (branch_loop (BranchNode bf cs) (getchildren xml_tree) '''')
             (\<lambda>output. returnM (xml_tag (bf_name bf) (Some output) None)))"
| "handle_xml tostring (TargetNode bf cs callback) xml_tree =
     (case callback of
        Some cb \<Rightarrow>
          (case build_payload tostring xml_tree of
             Inl e \<Rightarrow> raiseM e
           | Inr xml_payload \<Rightarrow> cb xml_payload)
      | None \<Rightarrow> target_loop tostring cs (getchildren xml_tree) '''')"
| "target_loop tostring cs [] ret = returnM ret"
| "target_loop tostring cs (xml_child # xs) ret =
     (case get cs (tag xml_child) of
        Some child_node \<Rightarrow>
          bindM (handle_xml tostring child_node xml_child)
            (\<lambda>r. target_loop tostring cs xs (ret @ r))
      | None \<Rightarrow> target_loop tostring cs xs ret)"
  by pat_completeness auto
termination
proof (relation "measures [\<lambda>v. case v of Inl (t, n, x) \<Rightarrow> size n
                                     | Inr (t, cs, xs, r) \<Rightarrow> size_list size cs,
                          \<lambda>v. case v of Inl (t, n, x) \<Rightarrow> 0
                                     | Inr (t, cs, xs, r) \<Rightarrow> length xs]")
  fix tostring :: "xml \<Rightarrow> string" and cs :: "'s Node list" and xml_child :: xml
    and xs :: "xml list" and ret :: string and child_node :: "'s Node"
  assume "get cs (tag xml_child) = Some child_node"
  then have "child_node \<in> set cs"
    by (induction cs) (auto split: if_splits)
  then have "size child_node < size_list size cs"
    by (induction cs) auto
  then show "(Inl (tostring, child_node, xml_child), Inr (tostring, cs, xml_child # xs, ret))
      \<in> measures [\<lambda>v. case v of Inl (t, n, x) \<Rightarrow> size n
                               | Inr (t, cs, xs, r) \<Rightarrow> size_list size cs,
                    \<lambda>v. case v of Inl (t, n, x) \<Rightarrow> 0
                               | Inr (t, cs, xs, r) \<Rightarrow> length xs]"
    by simp
qed auto

subsection \<open>Descriptors: \<^verbatim>\<open>to_descriptor_xml\<close>\<close>

text \<open>\<^verbatim>\<open>_get_attr_desc_xml\<close>, over the attributes of the node.\<close>

definition value_desc_xml :: "RCIAttributeValue \<Rightarrow> string" where
  "value_desc_xml v =
     ''<value value='' @ quoted (av_name v) @ '' desc='' @ quoted (av_desc v)
       @ ''  dscr_avail='' @ quoted ''true'' @ '' />''"

fun get_attr_desc_xml :: "RCIAttribute list \<Rightarrow> string" where
  "get_attr_desc_xml [] = ''''"
| "get_attr_desc_xml (attribute # as) =
     (''<attr name='' @ quoted (ra_name attribute) @ '' desc='' @ quoted (ra_desc attribute)
        @ (case ra_values attribute of
             Some vs \<Rightarrow> ''>'' @ concat (map value_desc_xml vs) @ ''</attr>''
           | None \<Rightarrow> '' />''))
     @ get_attr_desc_xml as"

text \<open>\<^verbatim>\<open>_get_error_desc_xml\<close>, over the items of the error dictionary of the node.\<close>

definition error_desc_xml :: "string \<times> string \<Rightarrow> string" where
  "error_desc_xml e =
     ''<error_descriptor id='' @ quoted (fst e) @ '' desc='' @ quoted (snd e) @ '' />''"

definition get_error_desc_xml :: "dict \<Rightarrow> string" where
  "get_error_desc_xml errors = concat (map error_desc_xml errors)"

text \<open>
  An entry that is added to a dictionary only when its value is not \<^verbatim>\<open>None\<close>, and
  \<^verbatim>\<open>_dict2xmlattr\<close>. The descriptor methods fill a fresh dictionary and iterate over its
  items; the order of that iteration is the interpreter's, and is the parameter
  \<open>items\<close>, applied to the entries in the order of their insertion.
\<close>

definition opt_item :: "string \<Rightarrow> string option \<Rightarrow> dict" where
  "opt_item key v = (case v of None \<Rightarrow> [] | Some x \<Rightarrow> [(key, x)])"

definition dict2xmlattr :: "dict \<Rightarrow> string" where
  "dict2xmlattr d = join '' '' (map key_value d)"

text \<open>
  \<^verbatim>\<open>LeafNode.to_descriptor_xml\<close>. The constructor replaces a \<^verbatim>\<open>None\<close> catalogue of
  attributes or of errors by an empty one, so the branch for both being \<^verbatim>\<open>None\<close> is not
  taken.
\<close>

definition leaf_descriptor_xml :: "(dict \<Rightarrow> dict) \<Rightarrow> leaf_fields \<Rightarrow> string" where
  "leaf_descriptor_xml items lf =
     (let attrs = [(''desc'', case lf_desc lf of None \<Rightarrow> lf_name lf | Some d \<Rightarrow> d),
                   (''name'', lf_name lf),
                   (''type'', lf_dtype lf)]
                  @ opt_item ''default'' (lf_default lf)
                  @ opt_item ''min'' (lf_dmin lf)
                  @ opt_item ''max'' (lf_dmax lf)
                  @ opt_item ''format'' (lf_dformat lf)
                  @ opt_item ''access'' (lf_access lf)
                  @ opt_item ''units'' (lf_units lf)
      in ''<element '' @ dict2xmlattr (items attrs) @ ''>''
           @ get_attr_desc_xml (lf_attrs lf) @ get_error_desc_xml (lf_errors lf)
           @ ''</element>'')"

text \<open>
  \<^verbatim>\<open>BranchNode.to_descriptor_xml\<close> and \<^verbatim>\<open>TargetNode.to_descriptor_xml\<close>. When
  \<^verbatim>\<open>dscr_avail\<close> is set, the branch reads \<^verbatim>\<open>self.desr_avail\<close>, an attribute that no class
  of the module defines: \<^verbatim>\<open>AttributeError\<close>. \<open>descriptor_children\<close> is the join of the
  children's descriptors. The argument \<^verbatim>\<open>xml_query_node\<close> is never read and is left out.
\<close>

fun to_descriptor_xml :: "(dict \<Rightarrow> dict) \<Rightarrow> 's Node \<Rightarrow> py_error + string"
  and descriptor_children :: "(dict \<Rightarrow> dict) \<Rightarrow> 's Node list \<Rightarrow> py_error + string" where
  "to_descriptor_xml items (LeafNode lf) = Inr (leaf_descriptor_xml items lf)"
| "to_descriptor_xml items (SimpleLeafNode lf accessor setter) =
     Inr (leaf_descriptor_xml items lf)"
| "to_descriptor_xml items (BranchNode bf cs) =
     (case bf_dscr_avail bf of
        Some v \<Rightarrow> Inl AttributeError
      | None \<Rightarrow>
          (let attrs = [(''element'', bf_name bf), (''desc'', bf_desc bf)]
                       @ opt_item ''access'' (bf_access bf)
                       @ opt_item ''format'' (bf_dformat bf)
           in case descriptor_children items cs of
                Inl e \<Rightarrow> Inl e
              | Inr child_descriptor_xml \<Rightarrow>
                  Inr (''<descriptor '' @ dict2xmlattr (items attrs) @ ''>''
                       @ get_attr_desc_xml (bf_attrs bf) @ get_error_desc_xml (bf_errors bf)
                       @ child_descriptor_xml @ ''</descriptor>'')))"
| "to_descriptor_xml items (TargetNode bf cs callback) =
     (case descriptor_children items cs of
        Inl e \<Rightarrow> Inl e
      | Inr child_descriptor_xml \<Rightarrow>
          Inr (''<attr name='' @ quoted ''target'' @ '' desc='' @ quoted (bf_desc bf)
               @ '' value='' @ quoted (bf_name bf) @ ''>''
               @ child_descriptor_xml @ ''</attr>''))"
| "descriptor_children items [] = Inr ''''"
| "descriptor_children items (x # xs) =
     (case to_descriptor_xml items x of
        Inl e \<Rightarrow> Inl e
      | Inr d \<Rightarrow>
          (case descriptor_children items xs of
             Inl e \<Rightarrow> Inl e
           | Inr ds \<Rightarrow> Inr (d @ ds)))"

subsection \<open>Constructors and example nodes\<close>

text \<open>
  The fields as \<^verbatim>\<open>BranchNode.__init__\<close> and \<^verbatim>\<open>LeafNode.__init__\<close> leave them when the
  class attributes are not overridden.
\<close>

definition new_branch :: "string \<Rightarrow> branch_fields" where
  "new_branch name =
     \<lparr>bf_name = name, bf_desc = '''', bf_attrs = [], bf_access = None,
      bf_dscr_avail = None, bf_dformat = None, bf_errors = []\<rparr>"

definition new_leaf :: "string \<Rightarrow> leaf_fields" where
  "new_leaf name =
     \<lparr>lf_name = name, lf_attrs = [], lf_desc = None, lf_dtype = ''string'',
      lf_dmin = None, lf_dmax = None, lf_default = None, lf_dformat = None,
      lf_access = Some ''read_only'', lf_units = None, lf_errors = []\<rparr>"

text \<open>An element with a tag and children only, as parsed from \<^verbatim>\<open><tag>...</tag>\<close>.\<close>

definition elem :: "string \<Rightarrow> xml list \<Rightarrow> xml" where
  "elem t cs = Element t [] None None cs"

text \<open>A serializer to run the examples with: it writes the tag only.\<close>

definition tag_only :: "xml \<Rightarrow> string" where
  "tag_only x = ''<'' @ tag x @ ''/>''"

subsection \<open>The dispatch in the words of the specification\<close>

text \<open>
  The specification describes the two dispatch loops as a concatenation of
  contributions, one for each child of the request in request order. \<open>mapM\<close> runs a
  handler on each element of a list in order, threading the state and stopping at the
  first exception.
\<close>

fun mapM :: "('a \<Rightarrow> ('b, 's) M) \<Rightarrow> 'a list \<Rightarrow> ('b list, 's) M" where
  "mapM f [] = returnM []"
| "mapM f (x # xs) = bindM (f x) (\<lambda>y. bindM (mapM f xs) (\<lambda>ys. returnM (y # ys)))"

text \<open>A body wrapped in the tag of a node: self-closing when the body is empty.\<close>

definition wrap_in_tag :: "string \<Rightarrow> string \<Rightarrow> string" where
  "wrap_in_tag name body =
     (if body = [] then ''<'' @ name @ '' />''
      else ''<'' @ name @ ''>'' @ body @ ''</'' @ name @ ''>'')"

text \<open>
  The contribution of one child of the request to the response of a branch: the
  \<^verbatim>\<open>toxml()\<close> of the node that the matcher resolves, nothing when it finds none.
\<close>

definition matched_toxml :: "'s Node \<Rightarrow> xml \<Rightarrow> (string, 's) M" where
  "matched_toxml b child =
     (case tree_match child b of
        Inl e \<Rightarrow> raiseM e
      | Inr None \<Rightarrow> returnM ''''
      | Inr (Some n) \<Rightarrow> toxml n)"

text \<open>
  The contribution of one child of the request to the response of a target without
  callback: the \<^verbatim>\<open>handle_xml\<close> of the first schema child with the same name, nothing
  when there is none.
\<close>

definition dispatched :: "(xml \<Rightarrow> string) \<Rightarrow> 's Node list \<Rightarrow> xml \<Rightarrow> (string, 's) M" where
  "dispatched tostring cs child =
     (case List.find (\<lambda>c. node_name c = tag child) cs of
        None \<Rightarrow> returnM ''''
      | Some n \<Rightarrow> handle_xml tostring n child)"

subsection \<open>The level test in the words of the specification\<close>

text \<open>
  The legal set of a candidate: the pairs of the name of a declared attribute and the
  name of one of its values. The level test: the names agree and the pairs on the
  request element are all legal. \<open>values_declared\<close> holds when every declared attribute
  carries a list of values.
\<close>

definition legal_set :: "'s Node \<Rightarrow> (string \<times> string) set" where
  "legal_set c =
     (\<Union>a \<in> set (node_attrs c).
        case ra_values a of
          None \<Rightarrow> {}
        | Some vs \<Rightarrow> (\<lambda>v. (ra_name a, av_name v)) ` set vs)"

definition level_test :: "xml \<Rightarrow> 's Node \<Rightarrow> bool" where
  "level_test e c = (node_name c = tag e \<and> set (attrib e) \<subseteq> legal_set c)"

definition values_declared :: "'s Node \<Rightarrow> bool" where
  "values_declared c = list_all (\<lambda>a. ra_values a \<noteq> None) (node_attrs c)"

subsection \<open>Counting the calls of an accessor\<close>

text \<open>
  The accessor \<open>f\<close> instrumented with a counter of its calls, kept beside the state.
\<close>

definition counting :: "('a, 's) M \<Rightarrow> ('a, 's \<times> nat) M" where
  "counting f = (\<lambda>(s, n). case f s of (r, s') \<Rightarrow> (r, (s', Suc n)))"

subsection \<open>Example schemas\<close>

text \<open>
  The node \<^verbatim>\<open>port\<close> with the declared attribute \<^verbatim>\<open>id\<close> whose values are \<^verbatim>\<open>1\<close> and \<^verbatim>\<open>2\<close>.
\<close>

definition port_id :: RCIAttribute where
  "port_id = RCIAttribute ''id'' ''port number''
     (Some [RCIAttributeValue ''1'' ''first'' None, RCIAttributeValue ''2'' ''second'' None])"

definition port_node :: "'s Node" where
  "port_node = LeafNode ((new_leaf ''port'')\<lparr>lf_attrs := [port_id]\<rparr>)"

text \<open>
  An accessor over a counter: it returns the baud rate and counts the call. The branch
  \<^verbatim>\<open>serial\<close> holds the port and the leaf \<^verbatim>\<open>baud\<close> read through that accessor.
\<close>

definition baud_accessor :: "(acc_value, nat) M" where
  "baud_accessor = (\<lambda>n. (Inr (AStr ''9600''), Suc n))"

definition serial_children :: "nat Node list" where
  "serial_children = [port_node, SimpleLeafNode (new_leaf ''baud'') (Some baud_accessor) None]"

text \<open>
  An accessor of the pair shape whose body changes with each call, and a callback that
  echoes its payload between brackets and counts the call.
\<close>

definition temp_accessor :: "(acc_value, nat) M" where
  "temp_accessor =
     (\<lambda>n. (Inr (APair (Some (if n = 0 then ''first'' else ''second''))
                    (Some [(''unit'', ''C'')])), Suc n))"

definition echo_callback :: "string \<Rightarrow> (string, nat) M" where
  "echo_callback payload = (\<lambda>n. (Inr (''['' @ payload @ '']''), Suc n))"

text \<open>
  The children of a command: the leaf \<^verbatim>\<open>delay\<close> and the branch \<^verbatim>\<open>opts\<close> with the leaf
  \<^verbatim>\<open>force\<close>.
\<close>

definition reboot_children :: "nat Node list" where
  "reboot_children =
     [LeafNode (new_leaf ''delay''),
      BranchNode (new_branch ''opts'') [LeafNode (new_leaf ''force'')]]"

text \<open>
  Two sibling branches with the same name \<^verbatim>\<open>p\<close>, the first over the leaf \<^verbatim>\<open>a\<close> and the
  second over the leaf \<^verbatim>\<open>b\<close>.
\<close>

definition twin_children :: "nat Node list" where
  "twin_children =
     [BranchNode (new_branch ''p'') [LeafNode (new_leaf ''a'')],
      BranchNode (new_branch ''p'') [LeafNode (new_leaf ''b'')]]"

text \<open>
  An accessor of the pair shape that returns the same reading at each call, and a port
  whose attribute \<^verbatim>\<open>id\<close> was declared without values.
\<close>

definition unit_accessor :: "(acc_value, nat) M" where
  "unit_accessor = (\<lambda>n. (Inr (APair (Some ''42'') (Some [(''unit'', ''C'')])), Suc n))"

text \<open>
  An accessor of the pair shape with two attributes, one whose body is \<^verbatim>\<open>None\<close>, one
  whose body is the empty string over an empty dictionary, and a setter that would add
  100 to the state.
\<close>

definition probe_accessor :: "(acc_value, nat) M" where
  "probe_accessor =
     (\<lambda>n. (Inr (APair (Some ''42'') (Some [(''unit'', ''C''), (''scale'', ''1'')])), Suc n))"

definition absent_accessor :: "(acc_value, nat) M" where
  "absent_accessor = (\<lambda>n. (Inr (APair None (Some [(''unit'', ''C'')])), Suc n))"

definition blank_accessor :: "(acc_value, nat) M" where
  "blank_accessor = (\<lambda>n. (Inr (APair (Some '''') (Some [])), Suc n))"

definition bump_setter :: "string option \<Rightarrow> dict option \<Rightarrow> (unit, nat) M" where
  "bump_setter body attributes = (\<lambda>n. (Inr (), n + 100))"

definition bare_port :: "'s Node" where
  "bare_port =
     LeafNode ((new_leaf ''port'')\<lparr>lf_attrs := [RCIAttribute ''id'' ''port number'' None]\<rparr>)"


section \<open>Laws of the monad\<close>

lemma bindM_returnM [simp]: "bindM (returnM a) f = f a"
  by (simp add: bindM_def returnM_def)

lemma bindM_raiseM [simp]: "bindM (raiseM e) f = raiseM e"
  by (simp add: bindM_def raiseM_def)

lemma bindM_assoc: "bindM (bindM m f) g = bindM m (\<lambda>a. bindM (f a) g)"
  by (auto simp: bindM_def fun_eq_iff split: prod.splits sum.splits)

lemma bindM_returnM_right [simp]: "bindM m returnM = m"
  by (auto simp: bindM_def returnM_def fun_eq_iff split: prod.splits sum.splits)

text \<open>Facts to run the definitions on the examples.\<close>

lemmas run_simps = bindM_def returnM_def raiseM_def liftE_def
lemmas match_simps = tree_match_def tree_match_helper.simps
lemmas example_simps = new_leaf_def new_branch_def elem_def tag_only_def port_id_def
  port_node_def baud_accessor_def serial_children_def temp_accessor_def echo_callback_def
  reboot_children_def twin_children_def unit_accessor_def bare_port_def
  probe_accessor_def absent_accessor_def blank_accessor_def bump_setter_def

section \<open>Descriptor of a branch with the availability flag\<close>

lemma branch_descriptor_dscr_avail:
  "to_descriptor_xml items (BranchNode (bf\<lparr>bf_dscr_avail := Some v\<rparr>) cs) = Inl AttributeError"
  by simp

lemma branch_descriptor_no_flag:
  "to_descriptor_xml items (BranchNode (new_branch n) []) =
     Inr (''<descriptor '' @ dict2xmlattr (items [(''element'', n), (''desc'', '''')])
          @ ''></descriptor>'')"
  by (simp add: new_branch_def opt_item_def get_error_desc_xml_def)

text \<open>
  C8. A branch on which \<^verbatim>\<open>dscr_avail\<close> is set should render a descriptor element that
  carries the flag. The method reads the misspelt attribute \<^verbatim>\<open>self.desr_avail\<close>
  instead: for the branch \<^verbatim>\<open>settings\<close> with \<^verbatim>\<open>dscr_avail = "true"\<close> and no children it
  raises \<^verbatim>\<open>AttributeError\<close> and returns no descriptor, whatever the order of the
  dictionary.
\<close>

theorem C8_dscr_avail_raises:
  "to_descriptor_xml items
     (BranchNode ((new_branch ''settings'')\<lparr>bf_dscr_avail := Some ''true''\<rparr>) [])
   = Inl AttributeError"
  by (rule branch_descriptor_dscr_avail)

section \<open>Dispatch on a branch\<close>

lemma branch_loop_mapM:
  "branch_loop self xs out =
     bindM (mapM (matched_toxml self) xs) (\<lambda>outs. returnM (out @ concat outs))"
proof (induction xs arbitrary: out)
  case Nil
  show ?case by simp
next
  case (Cons child xs)
  show ?case
  proof (cases "tree_match child self")
    case (Inl e)
    then show ?thesis by (simp add: matched_toxml_def)
  next
    case (Inr m)
    show ?thesis
    proof (cases m)
      case None
      with Inr show ?thesis
        by (simp add: matched_toxml_def Cons.IH bindM_assoc)
    next
      case (Some n)
      with Inr show ?thesis
        by (simp add: matched_toxml_def Cons.IH bindM_assoc)
    qed
  qed
qed

lemma xml_tag_wrap: "xml_tag name (Some body) None = wrap_in_tag name body"
  by (simp add: xml_tag_def wrap_in_tag_def)

text \<open>
  C1. For a branch \<open>b\<close> and a request \<open>r\<close>: when \<open>r\<close> has no child elements the
  response of \<^verbatim>\<open>b.handle_xml(r)\<close> is \<^verbatim>\<open>b.toxml()\<close>; otherwise it is the concatenation,
  over the children of \<open>r\<close> in request order, of the \<^verbatim>\<open>toxml()\<close> of the node that the
  matcher resolves for the child (nothing when it finds none), wrapped in the tag of
  \<open>b\<close>. An exception of the matcher or of a \<^verbatim>\<open>toxml()\<close> ends the dispatch at that child.
\<close>

theorem C1_branch_handle_xml:
  "handle_xml tostring (BranchNode bf cs) r =
     (if getchildren r = [] then toxml (BranchNode bf cs)
      else bindM (mapM (matched_toxml (BranchNode bf cs)) (getchildren r))
             (\<lambda>outs. returnM (wrap_in_tag (bf_name bf) (concat outs))))"
  by (simp add: branch_loop_mapM bindM_assoc xml_tag_wrap)

theorem C1_branch_handle_xml_witness:
  "handle_xml tag_only (BranchNode (new_branch ''serial'') serial_children)
     (elem ''serial'' [Element ''port'' [(''id'', ''1'')] None None [], elem ''nope'' [],
        elem ''baud'' []]) 0
   = (Inr ''<serial><port /><baud>9600</baud></serial>'', 1)"
  apply (subst C1_branch_handle_xml)
  apply (simp add: example_simps match_simps matched_toxml_def wrap_in_tag_def xml_tag_def
      run_simps)
  done

section \<open>Dispatch on a target without callback\<close>

lemma get_find: "get cs name = List.find (\<lambda>c. node_name c = name) cs"
  by (induction cs) auto

lemma target_loop_mapM:
  "target_loop tostring cs xs ret =
     bindM (mapM (dispatched tostring cs) xs) (\<lambda>outs. returnM (ret @ concat outs))"
proof (induction xs arbitrary: ret)
  case Nil
  show ?case by simp
next
  case (Cons x xs)
  show ?case
  proof (cases "get cs (tag x)")
    case None
    then show ?thesis
      by (simp add: dispatched_def get_find [symmetric] Cons.IH bindM_assoc)
  next
    case (Some n)
    then show ?thesis
      by (simp add: dispatched_def get_find [symmetric] Cons.IH bindM_assoc)
  qed
qed

text \<open>
  C7. For a target without callback the response of \<^verbatim>\<open>handle_xml\<close> is the concatenation,
  over the children of the request in request order, of the \<^verbatim>\<open>handle_xml\<close> of the first
  immediate schema child with the same name on that child of the request, and of
  nothing when no schema child has that name; the lookup \<^verbatim>\<open>get\<close> is that search by name.
\<close>

theorem C7_target_handle_xml:
  "handle_xml tostring (TargetNode bf cs None) r =
     bindM (mapM (dispatched tostring cs) (getchildren r)) (\<lambda>outs. returnM (concat outs))"
  by (simp add: target_loop_mapM)

theorem C7_target_handle_xml_witness:
  "handle_xml tag_only (TargetNode (new_branch ''reboot'') reboot_children None)
     (elem ''reboot'' [elem ''opts'' [], elem ''zzz'' [], elem ''delay'' []]) (0::nat)
   = (Inr ''<opts><force /></opts><delay />'', 0)"
  apply (subst C7_target_handle_xml)
  apply (simp add: example_simps dispatched_def xml_tag_def run_simps)
  done

section \<open>Dispatch on a target with a callback\<close>

lemma payload_loop_Some:
  "payload_loop tostring xs (Some a) = Inr (Some (a @ concat (map tostring xs)))"
  by (induction xs arbitrary: a) auto

lemma payload_loop_None:
  "payload_loop tostring xs None = (if xs = [] then Inr None else Inl TypeError)"
  by (cases xs) auto

lemma build_payload_present:
  "etext r = Some a \<Longrightarrow> etail r = Some b \<Longrightarrow>
   build_payload tostring r = Inr (a @ concat (map tostring (getchildren r)) @ b)"
  by (simp add: build_payload_def payload_loop_Some)

lemma build_payload_absent:
  "etext r = None \<or> etail r = None \<Longrightarrow> build_payload tostring r = Inl TypeError"
  by (cases "etext r"; cases "etail r")
     (auto simp: build_payload_def payload_loop_Some payload_loop_None)

text \<open>
  When both texts of the request are present, the callback receives the leading text,
  the serialized children and the trailing text, and its result is the response,
  whatever children the target declares.
\<close>

lemma callback_payload:
  "etext r = Some a \<Longrightarrow> etail r = Some b \<Longrightarrow>
   handle_xml tostring (TargetNode bf cs (Some cb)) r =
     cb (a @ concat (map tostring (getchildren r)) @ b)"
  by (simp add: build_payload_present)

lemma callback_payload_example:
  "handle_xml tag_only (TargetNode (new_branch ''t'') reboot_children (Some echo_callback))
     (Element ''t'' [] (Some ''pre'') (Some ''post'') [elem ''p'' []]) 0
   = (Inr ''[pre<p/>post]'', 1)"
  by (simp add: build_payload_def example_simps)

text \<open>
  C3. A target with a callback should pass to the callback the leading text of the
  request, its serialized children and its trailing text, for every request. On the
  request \<^verbatim>\<open><t><p/></t>\<close>, which has no text before its child and none after its end
  tag, the concatenation raises \<^verbatim>\<open>TypeError\<close> instead: no callback is called, whatever
  it is, and the state is the one before the call.
\<close>

theorem C3_callback_absent_text:
  "handle_xml tag_only (TargetNode (new_branch ''t'') [] (Some cb))
     (Element ''t'' [] None None [Element ''p'' [] None None []]) s
   = (Inl TypeError, s)"
  by (simp add: build_payload_def raiseM_def)

text \<open>
  C10. With a callback set, a request whose leading text or trailing text is absent
  makes \<^verbatim>\<open>handle_xml\<close> raise \<^verbatim>\<open>TypeError\<close> while it concatenates the payload: the
  callback is not called and the state is unchanged.
\<close>

theorem C10_callback_requires_text:
  "etext r = None \<or> etail r = None \<Longrightarrow>
   handle_xml tostring (TargetNode bf cs (Some cb)) r s = (Inl TypeError, s)"
  by (simp add: build_payload_absent raiseM_def)

theorem C10_callback_requires_text_witness:
  "(etext (elem ''t'' [elem ''p'' []]) = None \<or> etail (elem ''t'' [elem ''p'' []]) = None)
   \<and> handle_xml tag_only (TargetNode (new_branch ''t'') [] (Some echo_callback))
        (elem ''t'' [elem ''p'' []]) 7 = (Inl TypeError, 7)"
proof -
  have h: "etext (elem ''t'' [elem ''p'' []]) = None \<or> etail (elem ''t'' [elem ''p'' []]) = None"
    by (simp add: elem_def)
  show ?thesis
    using h C10_callback_requires_text [OF h, of tag_only "new_branch ''t''" "[]" echo_callback 7]
    by simp
qed

section \<open>The attribute matcher\<close>

text \<open>
  The loops that fill the set of a candidate compute its legal set when every declared
  attribute carries values, and raise \<^verbatim>\<open>TypeError\<close> otherwise. The helper then decides
  by the level test.
\<close>

lemma add_values_eq: "add_values n vs S = S \<union> (\<lambda>v. (n, av_name v)) ` set vs"
  by (induction vs arbitrary: S) auto

lemma attrib_loop_declared:
  "list_all (\<lambda>a. ra_values a \<noteq> None) as \<Longrightarrow>
   attrib_loop as S =
     Inr (S \<union> (\<Union>a \<in> set as. case ra_values a of None \<Rightarrow> {}
                                   | Some vs \<Rightarrow> (\<lambda>v. (ra_name a, av_name v)) ` set vs))"
  by (induction as arbitrary: S) (auto simp: add_values_eq)

lemma attrib_loop_undeclared:
  "\<not> list_all (\<lambda>a. ra_values a \<noteq> None) as \<Longrightarrow> attrib_loop as S = Inl TypeError"
  by (induction as arbitrary: S) (auto split: option.splits)

lemma attrib_loop_legal_set:
  "values_declared c \<Longrightarrow> attrib_loop (node_attrs c) {} = Inr (legal_set c)"
  by (simp add: values_declared_def legal_set_def attrib_loop_declared)

lemma helper_level:
  "values_declared c \<Longrightarrow>
   tree_match_helper x c =
     (if level_test x c then
        (case getchildren x of
           [] \<Rightarrow> Inr (Some c)
         | [xc] \<Rightarrow> (case iter c of Inl e \<Rightarrow> Inl e | Inr cs \<Rightarrow> helper_loop xc cs)
         | _ \<Rightarrow> Inl AssertionError)
      else Inr None)"
  by (subst tree_match_helper.simps)
     (auto simp: attrib_loop_legal_set level_test_def split: list.splits sum.splits)

lemma helper_undeclared:
  "\<not> values_declared c \<Longrightarrow> tree_match_helper x c = Inl TypeError"
  by (subst tree_match_helper.simps) (simp add: values_declared_def attrib_loop_undeclared)

lemma level_test_childless:
  "values_declared c \<Longrightarrow> getchildren e = [] \<Longrightarrow>
   tree_match_helper e c = (if level_test e c then Inr (Some c) else Inr None)"
  by (simp add: helper_level)

lemma helper_loop_find:
  "helper_loop x cs =
     (case List.find (\<lambda>c. tree_match_helper x c \<noteq> Inr None) cs of
        None \<Rightarrow> Inr None
      | Some c \<Rightarrow> tree_match_helper x c)"
  by (induction cs) (auto split: sum.splits option.splits)

lemma helper_loop_multi:
  "1 < length (getchildren x) \<Longrightarrow> list_all values_declared cs \<Longrightarrow>
   helper_loop x cs = (if \<exists>c \<in> set cs. level_test x c then Inl AssertionError else Inr None)"
proof (induction cs)
  case Nil
  show ?case by simp
next
  case (Cons c cs)
  then have d: "values_declared c" and ds: "list_all values_declared cs" by simp_all
  from Cons.prems(1) obtain y z zs where ch: "getchildren x = y # z # zs"
    by (cases "getchildren x"; cases "tl (getchildren x)") auto
  have "tree_match_helper x c = (if level_test x c then Inl AssertionError else Inr None)"
    by (simp add: helper_level [OF d] ch)
  with Cons.IH [OF Cons.prems(1) ds] show ?case by auto
qed

text \<open>
  The example of the specification: under a branch that holds the node \<^verbatim>\<open>port\<close>, the
  request \<^verbatim>\<open><port id="1"/>\<close> resolves to it, \<^verbatim>\<open><port id="3"/>\<close> resolves to nothing and
  \<^verbatim>\<open><other id="1"/>\<close> resolves to nothing.
\<close>

lemma port_example:
  "tree_match (Element ''port'' [(''id'', ''1'')] None None [])
     (BranchNode (new_branch ''serial'') [port_node]) = Inr (Some port_node)
   \<and> tree_match (Element ''port'' [(''id'', ''3'')] None None [])
       (BranchNode (new_branch ''serial'') [port_node]) = Inr None
   \<and> tree_match (Element ''other'' [(''id'', ''1'')] None None [])
       (BranchNode (new_branch ''serial'') [port_node]) = Inr None"
  by (simp add: match_simps example_simps)

text \<open>
  C2. The level test of a candidate on a request element should succeed exactly when
  the names agree and the pairs on the element are in the legal set of the candidate.
  For the candidate \<^verbatim>\<open>port\<close> whose attribute \<^verbatim>\<open>id\<close> was declared without values and the
  request \<^verbatim>\<open><port/>\<close> the names agree and the element carries no pair, so the test of
  the specification succeeds; the matcher raises \<^verbatim>\<open>TypeError\<close> while it builds the set
  of the candidate, and so does the lookup under a branch that holds this candidate.
\<close>

theorem C2_undeclared_values_raise:
  "level_test (elem ''port'' []) bare_port
   \<and> tree_match_helper (elem ''port'' []) bare_port = Inl TypeError
   \<and> tree_match (elem ''port'' []) (BranchNode (new_branch ''serial'') [bare_port])
       = Inl TypeError"
  by (simp add: match_simps example_simps level_test_def legal_set_def)

text \<open>
  C4, as stated, fails. Under a branch with two children named \<^verbatim>\<open>p\<close>, the first over
  the leaf \<^verbatim>\<open>a\<close> and the second over the leaf \<^verbatim>\<open>b\<close>, the request \<^verbatim>\<open><p><b/></p>\<close> passes
  the level test of the first candidate, none of the children of that candidate
  matches the nested element, and yet the lookup does not fail: it goes on to the
  second candidate and resolves to its leaf \<^verbatim>\<open>b\<close>.
\<close>

theorem C4_counterexample:
  "level_test (elem ''p'' [elem ''b'' []]) (BranchNode (new_branch ''p'') [LeafNode (new_leaf ''a'')])
   \<and> helper_loop (elem ''b'' []) [LeafNode (new_leaf ''a'') :: nat Node] = Inr None
   \<and> tree_match (elem ''p'' [elem ''b'' []]) (BranchNode (new_branch ''root'') twin_children)
       = Inr (Some (LeafNode (new_leaf ''b'')))"
  by (simp add: match_simps example_simps level_test_def legal_set_def)

text \<open>
  C4, amended. When the level test of a candidate succeeds and the request element has
  exactly one nested child, the matcher recurses into the children of the candidate
  with the same rule. A candidate none of whose children match is rejected alone: the
  loop over the children, and the lookup over the candidates of a branch, return the
  result of the first node in declaration order whose result is not absent (a match or
  an exception), and are absent only when every node is rejected.
\<close>

theorem C4_next_candidate:
  "(values_declared c \<and> level_test x c \<and> getchildren x = [xc] \<and> iter c = Inr cs
      \<longrightarrow> tree_match_helper x c = helper_loop xc cs)
   \<and> helper_loop xc cs =
       (case List.find (\<lambda>c. tree_match_helper xc c \<noteq> Inr None) cs of
          None \<Rightarrow> Inr None
        | Some c \<Rightarrow> tree_match_helper xc c)
   \<and> (iter b = Inr cands \<longrightarrow>
        tree_match x b =
          (case List.find (\<lambda>c. tree_match_helper x c \<noteq> Inr None) cands of
             None \<Rightarrow> Inr None
           | Some c \<Rightarrow> tree_match_helper x c))"
  by (simp add: helper_level helper_loop_find [symmetric] tree_match_def)

theorem C4_next_candidate_witness:
  "values_declared (hd twin_children)
   \<and> level_test (elem ''p'' [elem ''b'' []]) (hd twin_children)
   \<and> getchildren (elem ''p'' [elem ''b'' []]) = [elem ''b'' []]
   \<and> iter (hd twin_children) = Inr [LeafNode (new_leaf ''a'')]
   \<and> iter (BranchNode (new_branch ''root'') twin_children) = Inr twin_children
   \<and> tree_match_helper (elem ''p'' [elem ''b'' []]) (hd twin_children) = Inr None
   \<and> tree_match (elem ''p'' [elem ''b'' []]) (BranchNode (new_branch ''root'') twin_children)
       = Inr (Some (LeafNode (new_leaf ''b'')))"
  using C4_next_candidate [of "hd twin_children" "elem ''p'' [elem ''b'' []]" "elem ''b'' []"
      "[LeafNode (new_leaf ''a'')]" "BranchNode (new_branch ''root'') twin_children"
      twin_children]
  by (simp add: match_simps example_simps level_test_def legal_set_def values_declared_def)

text \<open>
  C5, as stated, fails. The request element \<^verbatim>\<open><zzz><a/><b/></zzz>\<close> has two nested
  children; under a branch with no child named \<^verbatim>\<open>zzz\<close> the lookup returns the normal
  absent result, and the dispatch of the branch skips the element silently.
\<close>

theorem C5_counterexample:
  "1 < length (getchildren (elem ''zzz'' [elem ''a'' [], elem ''b'' []]))
   \<and> tree_match (elem ''zzz'' [elem ''a'' [], elem ''b'' []])
       (BranchNode (new_branch ''root'') reboot_children) = Inr None
   \<and> handle_xml tag_only (BranchNode (new_branch ''root'') reboot_children)
       (elem ''root'' [elem ''zzz'' [elem ''a'' [], elem ''b'' []]]) 0
       = (Inr ''<root />'', 0)"
  by (simp add: match_simps example_simps xml_tag_def run_simps)

text \<open>
  C5, amended. For a request element with more than one nested child: a candidate whose
  level test succeeds on it makes the helper raise \<^verbatim>\<open>AssertionError\<close>; the lookup under
  a branch raises \<^verbatim>\<open>AssertionError\<close> when the level test of some candidate succeeds on
  the element and returns the normal absent result when none does (every candidate
  declaring its values); the same holds one level down, for the only nested child of an
  element whose candidate passed the level test; and an \<^verbatim>\<open>AssertionError\<close> of the lookup
  on the first child of a request is raised by \<^verbatim>\<open>handle_xml\<close> to its caller.
\<close>

theorem C5_multi_child_raises:
  "1 < length (getchildren x) \<Longrightarrow>
   (values_declared c \<and> level_test x c \<longrightarrow> tree_match_helper x c = Inl AssertionError)
   \<and> (list_all values_declared cs \<longrightarrow>
        tree_match x (BranchNode bf cs) =
          (if \<exists>c \<in> set cs. level_test x c then Inl AssertionError else Inr None))
   \<and> (values_declared p \<and> level_test y p \<and> getchildren y = [x] \<and> iter p = Inr ps
        \<and> list_all values_declared ps \<longrightarrow>
        tree_match_helper y p =
          (if \<exists>c \<in> set ps. level_test x c then Inl AssertionError else Inr None))
   \<and> (tree_match x (BranchNode bf cs) = Inl AssertionError \<longrightarrow>
        handle_xml tostring (BranchNode bf cs) (Element t a tx ta (x # xs)) s
          = (Inl AssertionError, s))"
proof (intro conjI impI)
  assume m: "1 < length (getchildren x)"
  then obtain k1 k2 ks where ch: "getchildren x = k1 # k2 # ks"
    by (cases "getchildren x"; cases "tl (getchildren x)") auto
  show "tree_match_helper x c = Inl AssertionError" if "values_declared c \<and> level_test x c"
    using that by (simp add: helper_level ch)
  show "tree_match x (BranchNode bf cs) =
      (if \<exists>c \<in> set cs. level_test x c then Inl AssertionError else Inr None)"
    if "list_all values_declared cs"
    using that m by (simp add: tree_match_def helper_loop_multi)
  show "tree_match_helper y p =
      (if \<exists>c \<in> set ps. level_test x c then Inl AssertionError else Inr None)"
    if "values_declared p \<and> level_test y p \<and> getchildren y = [x] \<and> iter p = Inr ps
      \<and> list_all values_declared ps"
    using that m by (simp add: helper_level helper_loop_multi)
  show "handle_xml tostring (BranchNode bf cs) (Element t a tx ta (x # xs)) s
      = (Inl AssertionError, s)"
    if "tree_match x (BranchNode bf cs) = Inl AssertionError"
    using that by (simp add: run_simps)
qed

theorem C5_multi_child_raises_witness:
  "1 < length (getchildren (elem ''opts'' [elem ''a'' [], elem ''b'' []]))
   \<and> list_all values_declared reboot_children
   \<and> (\<exists>c \<in> set reboot_children. level_test (elem ''opts'' [elem ''a'' [], elem ''b'' []]) c)
   \<and> tree_match (elem ''opts'' [elem ''a'' [], elem ''b'' []])
        (BranchNode (new_branch ''root'') reboot_children) = Inl AssertionError
   \<and> handle_xml tag_only (BranchNode (new_branch ''root'') reboot_children)
        (Element ''root'' [] None None [elem ''opts'' [elem ''a'' [], elem ''b'' []]]) 0
        = (Inl AssertionError, 0)"
proof -
  have h: "1 < length (getchildren (elem ''opts'' [elem ''a'' [], elem ''b'' []]))"
    by (simp add: elem_def)
  have d: "list_all values_declared reboot_children"
    by (simp add: example_simps values_declared_def)
  have l: "\<exists>c \<in> set reboot_children. level_test (elem ''opts'' [elem ''a'' [], elem ''b'' []]) c"
    by (simp add: example_simps level_test_def legal_set_def)
  note raises = C5_multi_child_raises [OF h, of "LeafNode (new_leaf ''x'')" reboot_children
      "new_branch ''root''" "LeafNode (new_leaf ''x'')" "elem ''x'' []" "[]"
      tag_only "''root''" "[]" None None "[]" 0]
  from raises d l have tm: "tree_match (elem ''opts'' [elem ''a'' [], elem ''b'' []])
      (BranchNode (new_branch ''root'') reboot_children) = Inl AssertionError"
    by metis
  from raises tm have hx: "handle_xml tag_only (BranchNode (new_branch ''root'') reboot_children)
      (Element ''root'' [] None None [elem ''opts'' [elem ''a'' [], elem ''b'' []]]) 0
      = (Inl AssertionError, 0)"
    by blast
  from h d l tm hx show ?thesis by blast
qed

section \<open>Rendering a simple leaf\<close>

lemma counting_apply: "f s = (r, s') \<Longrightarrow> counting f (s, n) = (r, (s', Suc n))"
  by (simp add: counting_def)

text \<open>
  C9. When the first call of the accessor returns a value that is not a bare string,
  \<^verbatim>\<open>toxml()\<close> calls the accessor a second time, from the state that the first call
  left, and renders the pair of the second call: the state after the render is the one
  after two calls, and the counter of the instrumented accessor has advanced by two.
\<close>

theorem C9_accessor_called_twice:
  assumes "acc s = (Inr v, s1)" and "\<forall>b. v \<noteq> AStr b"
    and "acc s1 = (Inr (APair body attributes), s2)"
  shows "toxml (SimpleLeafNode lf (Some acc) st) s
           = (Inr (xml_tag (lf_name lf) body attributes), s2)
         \<and> toxml (SimpleLeafNode lf (Some (counting acc)) st') (s, n)
           = (Inr (xml_tag (lf_name lf) body attributes), (s2, n + 2))"
proof -
  from assms(2) have shape: "v = ANone \<or> (\<exists>b a. v = APair b a)"
    by (cases v) auto
  have first: "toxml (SimpleLeafNode lf (Some acc) st) s
      = (Inr (xml_tag (lf_name lf) body attributes), s2)"
    using assms(1,3) shape by (auto simp: run_simps)
  have c1: "counting acc (s, n) = (Inr v, (s1, Suc n))"
    using assms(1) by (rule counting_apply)
  have c2: "counting acc (s1, Suc n) = (Inr (APair body attributes), (s2, Suc (Suc n)))"
    using assms(3) by (rule counting_apply)
  have second: "toxml (SimpleLeafNode lf (Some (counting acc)) st') (s, n)
      = (Inr (xml_tag (lf_name lf) body attributes), (s2, n + 2))"
    using c1 c2 shape by (auto simp: run_simps)
  from first second show ?thesis by simp
qed

theorem C9_accessor_called_twice_witness:
  "temp_accessor 0 = (Inr (APair (Some ''first'') (Some [(''unit'', ''C'')])), 1)
   \<and> (\<forall>b. APair (Some ''first'') (Some [(''unit'', ''C'')]) \<noteq> AStr b)
   \<and> temp_accessor 1 = (Inr (APair (Some ''second'') (Some [(''unit'', ''C'')])), 2)
   \<and> toxml (SimpleLeafNode (new_leaf ''temp'') (Some temp_accessor) None) 0
       = (Inr (''<temp unit='' @ quoted ''C'' @ ''>second</temp>''), 2)
   \<and> toxml (SimpleLeafNode (new_leaf ''temp'') (Some (counting temp_accessor)) None) (0, 0)
       = (Inr (''<temp unit='' @ quoted ''C'' @ ''>second</temp>''), (2, 2))"
proof -
  have h1: "temp_accessor 0 = (Inr (APair (Some ''first'') (Some [(''unit'', ''C'')])), 1)"
    by (simp add: temp_accessor_def)
  have h2: "\<forall>b. APair (Some ''first'') (Some [(''unit'', ''C'')]) \<noteq> AStr b"
    by simp
  have h3: "temp_accessor 1 = (Inr (APair (Some ''second'') (Some [(''unit'', ''C'')])), 2)"
    by (simp add: temp_accessor_def)
  show ?thesis
    using h1 h2 h3
      C9_accessor_called_twice [OF h1 h2 h3, of "new_leaf ''temp''" None None 0]
    by (simp add: xml_tag_def key_value_def new_leaf_def)
qed

text \<open>
  The attribute text of \<^verbatim>\<open>_xml_tag\<close>, written out: a space before each attribute, the
  value between double quotes, and a single space for an empty dictionary.
\<close>

lemma join_key_value:
  "d \<noteq> [] \<Longrightarrow>
   '' '' @ join '' '' (map key_value d) =
     concat (map (\<lambda>kv. '' '' @ fst kv @ ''='' @ [CHR 0x22] @ snd kv @ [CHR 0x22]) d)"
proof (induction d rule: induct_list012)
  case 1
  then show ?case by simp
next
  case (2 x)
  show ?case by (simp add: key_value_def quoted_def)
next
  case (3 x y zs)
  then show ?case by (simp add: key_value_def quoted_def)
qed

lemma xml_tag_explicit:
  "xml_tag name body attributes =
     ''<'' @ name
     @ (case attributes of
          None \<Rightarrow> ''''
        | Some d \<Rightarrow>
            if d = [] then '' ''
            else concat (map (\<lambda>kv. '' '' @ fst kv @ ''='' @ [CHR 0x22] @ snd kv @ [CHR 0x22]) d))
     @ (case body of
          None \<Rightarrow> '' />''
        | Some b \<Rightarrow> if b = [] then '' />'' else ''>'' @ b @ ''</'' @ name @ ''>'')"
proof (cases attributes)
  case None
  then show ?thesis by (simp add: xml_tag_def split: option.splits)
next
  case (Some d)
  show ?thesis
  proof (cases "d = []")
    case True
    with Some show ?thesis by (simp add: xml_tag_def split: option.splits)
  next
    case False
    from join_key_value [OF False] Some False show ?thesis
      by (simp add: xml_tag_def split: option.splits)
  qed
qed

text \<open>
  C6. A simple leaf without accessor renders a self-closing tag with no body and no
  attribute. When the accessor returns a bare string, the leaf renders that string as
  the body of its tag, with no attribute (an empty string gives the self-closing
  tag). When the accessor returns a pair, the leaf renders the pair that the accessor
  returns at its second call: the name of the leaf, then each attribute of the pair in
  the order of the dictionary, as a space, the key, an equals sign and the value
  between double quotes (nothing for \<^verbatim>\<open>None\<close>, a single space for an empty
  dictionary), then the body between the opening and the closing tag, or the
  self-closing end when the body is \<^verbatim>\<open>None\<close> or empty. The render does not depend on
  the setter.
\<close>

theorem C6_simple_leaf_toxml:
  "toxml (SimpleLeafNode lf None st) s = (Inr (''<'' @ lf_name lf @ '' />''), s)
   \<and> (acc s = (Inr (AStr b), s1) \<longrightarrow>
        toxml (SimpleLeafNode lf (Some acc) st) s
          = (Inr (if b = [] then ''<'' @ lf_name lf @ '' />''
                  else ''<'' @ lf_name lf @ ''>'' @ b @ ''</'' @ lf_name lf @ ''>''), s1))
   \<and> (acc s = (Inr (APair body0 attributes0), s1)
        \<and> acc s1 = (Inr (APair body attributes), s2) \<longrightarrow>
        toxml (SimpleLeafNode lf (Some acc) st) s
          = (Inr (''<'' @ lf_name lf
                  @ (case attributes of
                       None \<Rightarrow> ''''
                     | Some d \<Rightarrow>
                         if d = [] then '' ''
                         else concat (map (\<lambda>kv. '' '' @ fst kv @ ''='' @ [CHR 0x22] @ snd kv
                                              @ [CHR 0x22]) d))
                  @ (case body of
                       None \<Rightarrow> '' />''
                     | Some b \<Rightarrow>
                         if b = [] then '' />''
                         else ''>'' @ b @ ''</'' @ lf_name lf @ ''>'')), s2))
   \<and> toxml (SimpleLeafNode lf accessor st) = toxml (SimpleLeafNode lf accessor st')"
proof (intro conjI impI)
  show "toxml (SimpleLeafNode lf None st) s = (Inr (''<'' @ lf_name lf @ '' />''), s)"
    by (simp add: run_simps xml_tag_def)
  show "toxml (SimpleLeafNode lf (Some acc) st) s
      = (Inr (if b = [] then ''<'' @ lf_name lf @ '' />''
              else ''<'' @ lf_name lf @ ''>'' @ b @ ''</'' @ lf_name lf @ ''>''), s1)"
    if "acc s = (Inr (AStr b), s1)"
    using that by (simp add: run_simps xml_tag_def)
  show "toxml (SimpleLeafNode lf (Some acc) st) s
      = (Inr (''<'' @ lf_name lf
              @ (case attributes of
                   None \<Rightarrow> ''''
                 | Some d \<Rightarrow>
                     if d = [] then '' ''
                     else concat (map (\<lambda>kv. '' '' @ fst kv @ ''='' @ [CHR 0x22] @ snd kv
                                          @ [CHR 0x22]) d))
              @ (case body of
                   None \<Rightarrow> '' />''
                 | Some b \<Rightarrow>
                     if b = [] then '' />''
                     else ''>'' @ b @ ''</'' @ lf_name lf @ ''>'')), s2)"
    if "acc s = (Inr (APair body0 attributes0), s1)
        \<and> acc s1 = (Inr (APair body attributes), s2)"
  proof -
    from that have "toxml (SimpleLeafNode lf (Some acc) st) s
        = (Inr (xml_tag (lf_name lf) body attributes), s2)"
      by (simp add: run_simps)
    then show ?thesis by (simp only: xml_tag_explicit)
  qed
  show "toxml (SimpleLeafNode lf accessor st) = toxml (SimpleLeafNode lf accessor st')"
    by simp
qed

theorem C6_simple_leaf_toxml_witness:
  "toxml (SimpleLeafNode (new_leaf ''temp'') None (Some bump_setter)) 0 = (Inr ''<temp />'', 0)
   \<and> baud_accessor 0 = (Inr (AStr ''9600''), 1)
   \<and> toxml (SimpleLeafNode (new_leaf ''baud'') (Some baud_accessor) (Some bump_setter)) 0
       = (Inr ''<baud>9600</baud>'', 1)
   \<and> unit_accessor 0 = (Inr (APair (Some ''42'') (Some [(''unit'', ''C'')])), 1)
   \<and> unit_accessor 1 = (Inr (APair (Some ''42'') (Some [(''unit'', ''C'')])), 2)
   \<and> toxml (SimpleLeafNode (new_leaf ''temp'') (Some unit_accessor) (Some bump_setter)) 0
       = (Inr (''<temp unit='' @ [CHR 0x22] @ ''C'' @ [CHR 0x22] @ ''>42</temp>''), 2)
   \<and> toxml (SimpleLeafNode (new_leaf ''temp'') (Some probe_accessor) (Some bump_setter)) 0
       = (Inr (''<temp unit='' @ [CHR 0x22] @ ''C'' @ [CHR 0x22]
               @ '' scale='' @ [CHR 0x22] @ ''1'' @ [CHR 0x22] @ ''>42</temp>''), 2)
   \<and> toxml (SimpleLeafNode (new_leaf ''temp'') (Some absent_accessor) (Some bump_setter)) 0
       = (Inr (''<temp unit='' @ [CHR 0x22] @ ''C'' @ [CHR 0x22] @ '' />''), 2)
   \<and> toxml (SimpleLeafNode (new_leaf ''temp'') (Some blank_accessor) (Some bump_setter)) 0
       = (Inr ''<temp  />'', 2)"
proof -
  let ?st = "Some bump_setter"
  have name: "lf_name (new_leaf ''temp'') = ''temp''" "lf_name (new_leaf ''baud'') = ''baud''"
    by (simp_all add: new_leaf_def)
  have a: "baud_accessor 0 = (Inr (AStr ''9600''), 1)"
    by (simp add: baud_accessor_def)
  have u: "unit_accessor 0 = (Inr (APair (Some ''42'') (Some [(''unit'', ''C'')])), 1)"
    "unit_accessor 1 = (Inr (APair (Some ''42'') (Some [(''unit'', ''C'')])), 2)"
    by (simp_all add: unit_accessor_def)
  have p: "probe_accessor 0
      = (Inr (APair (Some ''42'') (Some [(''unit'', ''C''), (''scale'', ''1'')])), 1)
    \<and> probe_accessor 1
      = (Inr (APair (Some ''42'') (Some [(''unit'', ''C''), (''scale'', ''1'')])), 2)"
    by (simp add: probe_accessor_def)
  have n: "absent_accessor 0 = (Inr (APair None (Some [(''unit'', ''C'')])), 1)
    \<and> absent_accessor 1 = (Inr (APair None (Some [(''unit'', ''C'')])), 2)"
    by (simp add: absent_accessor_def)
  have e: "blank_accessor 0 = (Inr (APair (Some '''') (Some [])), 1)
    \<and> blank_accessor 1 = (Inr (APair (Some '''') (Some [])), 2)"
    by (simp add: blank_accessor_def)
  note leaf = C6_simple_leaf_toxml [where st = ?st and s = "0::nat" and ?s1.0 = 1 and ?s2.0 = 2]
  from leaf [where lf = "new_leaf ''temp''"]
  have r0: "toxml (SimpleLeafNode (new_leaf ''temp'') None ?st) 0
      = (Inr (''<'' @ lf_name (new_leaf ''temp'') @ '' />''), 0)"
    by blast
  from a leaf [where lf = "new_leaf ''baud''" and acc = baud_accessor and b = "''9600''"]
  have r1: "toxml (SimpleLeafNode (new_leaf ''baud'') (Some baud_accessor) ?st) 0
      = (Inr (if ''9600'' = [] then ''<'' @ lf_name (new_leaf ''baud'') @ '' />''
              else ''<'' @ lf_name (new_leaf ''baud'') @ ''>'' @ ''9600'' @ ''</''
                   @ lf_name (new_leaf ''baud'') @ ''>''), 1)"
    by blast
  from u leaf [where lf = "new_leaf ''temp''" and acc = unit_accessor
      and ?body0.0 = "Some ''42''" and ?attributes0.0 = "Some [(''unit'', ''C'')]"
      and body = "Some ''42''" and attributes = "Some [(''unit'', ''C'')]"]
  have r2: "toxml (SimpleLeafNode (new_leaf ''temp'') (Some unit_accessor) ?st) 0
      = (Inr (''<temp unit='' @ [CHR 0x22] @ ''C'' @ [CHR 0x22] @ ''>42</temp>''), 2)"
    by (simp add: name)
  from p leaf [where lf = "new_leaf ''temp''" and acc = probe_accessor
      and ?body0.0 = "Some ''42''"
      and ?attributes0.0 = "Some [(''unit'', ''C''), (''scale'', ''1'')]"
      and body = "Some ''42''" and attributes = "Some [(''unit'', ''C''), (''scale'', ''1'')]"]
  have r3: "toxml (SimpleLeafNode (new_leaf ''temp'') (Some probe_accessor) ?st) 0
      = (Inr (''<temp unit='' @ [CHR 0x22] @ ''C'' @ [CHR 0x22]
              @ '' scale='' @ [CHR 0x22] @ ''1'' @ [CHR 0x22] @ ''>42</temp>''), 2)"
    by (simp add: name)
  from n leaf [where lf = "new_leaf ''temp''" and acc = absent_accessor
      and ?body0.0 = None and ?attributes0.0 = "Some [(''unit'', ''C'')]"
      and body = None and attributes = "Some [(''unit'', ''C'')]"]
  have r4: "toxml (SimpleLeafNode (new_leaf ''temp'') (Some absent_accessor) ?st) 0
      = (Inr (''<temp unit='' @ [CHR 0x22] @ ''C'' @ [CHR 0x22] @ '' />''), 2)"
    by (simp add: name)
  from e leaf [where lf = "new_leaf ''temp''" and acc = blank_accessor
      and ?body0.0 = "Some ''''" and ?attributes0.0 = "Some []"
      and body = "Some ''''" and attributes = "Some []"]
  have r5: "toxml (SimpleLeafNode (new_leaf ''temp'') (Some blank_accessor) ?st) 0
      = (Inr ''<temp  />'', 2)"
    by (simp add: name)
  from r0 r1 a u r2 r3 r4 r5 show ?thesis by (simp add: name)
qed

end
